theory Spec2Isabelle
  imports Main "HOL-Library.AList" "HOL-Library.Sublist"
begin

section \<open>JavaScript values\<close>

text \<open>
  Strings are lists of characters, one \<^typ>\<open>char\<close> per UTF-16 code unit of the
  JavaScript string (code units up to 255; the decorative emoji of the console messages
  are left out of the message texts). A number is an integer or \<open>NaN\<close>; the integers
  that occur (chain ids, decimals, HTTP status codes) are far below \<open>2^53\<close>, where a
  JavaScript number is exact. An optional property (\<open>field?: T\<close>, or a property
  that a JSON response may lack) is an \<^typ>\<open>'a option\<close>, \<open>None\<close> being
  \<open>undefined\<close>.
\<close>

datatype jsnumber = NaN | Num int

datatype json = JNull | JBool bool | JNum jsnumber | JStr string | JObj "(string \<times> json) list"

text \<open>\<open>s || d\<close> on an optional string: \<open>undefined\<close> and \<open>""\<close> are falsy.\<close>

definition or_str :: "string option \<Rightarrow> string \<Rightarrow> string" where
  "or_str s d = (case s of None \<Rightarrow> d | Some t \<Rightarrow> if t \<noteq> [] then t else d)"

text \<open>An optional string when it is truthy: its value, if it is present and not empty.\<close>

definition truthy :: "string option \<Rightarrow> string option" where
  "truthy s = (case s of None \<Rightarrow> None | Some t \<Rightarrow> if t \<noteq> [] then Some t else None)"

text \<open>\<open>n || d\<close> on an optional number: \<open>undefined\<close>, \<open>NaN\<close> and \<open>0\<close> are falsy.\<close>

definition or_num :: "jsnumber option \<Rightarrow> jsnumber \<Rightarrow> jsnumber" where
  "or_num n d = (case n of None \<Rightarrow> d | Some NaN \<Rightarrow> d | Some (Num k) \<Rightarrow> if k \<noteq> 0 then Num k else d)"

text \<open>Template-literal rendering \<open>${x}\<close> of an optional string.\<close>

definition render :: "string option \<Rightarrow> string" where
  "render s = (case s of None \<Rightarrow> ''undefined'' | Some t \<Rightarrow> t)"

section \<open>The data model (types.ts)\<close>

record ThirdwebConfig =
  apiKey :: string
  baseUrl :: string
  chainId :: "jsnumber option"
  ecosystemId :: "string option"
  ecosystemPartnerId :: "string option"

record SendLoginCodeResponse =
  success :: bool
  error :: "string option"

record VerifyLoginCodeResponse =
  isNewUser :: bool
  token :: "string option"
  walletAddress :: "string option"
  error :: "string option"

record WalletInfo =
  address :: string
  email :: string
  created_at :: "string option"
  chain_id :: "jsnumber option"
  isNewUser :: "bool option"
  token :: "string option"
  ecosystemId :: "string option"
  ecosystemPartnerId :: "string option"

record ApiError =
  error :: string
  message :: "string option"
  status_code :: "int option"

record TokenMetadata =
  name :: string
  symbol :: string
  description :: string
  decimals :: "jsnumber option"
  initialSupply :: "string option"

record DeployContractResult =
  address :: string
  chainId :: jsnumber
  transactionId :: "string option"

record DeployContractResponse =
  result :: "DeployContractResult option"
  error :: "string option"

record ContractInfo =
  contractAddress :: string
  transactionId :: "string option"
  chainId :: jsnumber
  deployer :: string
  tokenName :: string
  tokenSymbol :: string
  tokenDescription :: string
  deployed_at :: string

section \<open>Errors, the HTTP layer and observable effects\<close>

text \<open>
  A thrown value is the normalized \<open>ApiError\<close> object of the response interceptor, an
  \<open>Error\<close> with its message, or the \<open>TypeError\<close> of a property read on
  \<open>null\<close>/\<open>undefined\<close>. An operation that may throw returns
  \<open>js_error + 'a\<close>, \<open>Inl\<close> being the thrown value.
\<close>

datatype js_error = ApiErr ApiError | Error string | TypeError

text \<open>
  What axios hands to the interceptor: the response data of a 2xx answer, or an error
  with its \<open>message\<close> and, when the server answered, the \<open>response\<close>
  (\<open>status\<close>, and \<open>data?.error\<close>, \<open>data?.message\<close>).
\<close>

record AxiosErrorResponse =
  response_status :: int
  data_error :: "string option"
  data_message :: "string option"

datatype 'a axios_outcome = Fulfilled 'a | Rejected "AxiosErrorResponse option" string

text \<open>The response interceptor installed by both constructors.\<close>

definition interceptor :: "'a axios_outcome \<Rightarrow> js_error + 'a" where
  "interceptor out =
     (case out of
        Fulfilled d \<Rightarrow> Inr d
      | Rejected (Some r) msg \<Rightarrow>
          Inl (ApiErr \<lparr>ApiError.error = or_str (data_error r) ''API Error'',
                       message = Some (or_str (data_message r) msg),
                       status_code = Some (response_status r)\<rparr>)
      | Rejected None msg \<Rightarrow> Inl (Error (if msg \<noteq> [] then msg else ''Network error'')))"

type_synonym headers = "(string \<times> string) list"

text \<open>
  The body of a GET answer is untyped in the source (\<open>response.data.result\<close> on
  \<open>any\<close>): \<open>DataNull\<close> is a \<open>null\<close> body, on which the property read
  throws; \<open>DataObj r\<close> is an object whose \<open>result\<close> is \<open>r\<close>
  (\<open>None\<close> when the property is missing).
\<close>

datatype 'a get_data = DataNull | DataObj "'a option"

text \<open>The remote service: for each endpoint, the outcome of a request.\<close>

record server =
  login_code :: "headers \<Rightarrow> json \<Rightarrow> SendLoginCodeResponse axios_outcome"
  login_code_verify :: "headers \<Rightarrow> json \<Rightarrow> VerifyLoginCodeResponse axios_outcome"
  contracts :: "headers \<Rightarrow> json \<Rightarrow> DeployContractResponse axios_outcome"
  wallets_get :: "headers \<Rightarrow> string \<Rightarrow> WalletInfo get_data axios_outcome"
  contracts_get :: "headers \<Rightarrow> string \<Rightarrow> json get_data axios_outcome"

text \<open>
  The body of an answer of \<open>GET /v1/transactions/{id}\<close>, read as
  \<open>response.result || response\<close>: a \<open>null\<close> body (the property read throws),
  an object with a \<open>result\<close> object, or the transaction object itself. Of the
  transaction object the tools branch on \<open>status\<close> only; \<open>others\<close> holds its
  other properties.
\<close>

record txData =
  status :: "string option"
  others :: "(string \<times> json) list"

datatype tx_response = TxNull | TxResult txData | TxBare txData

text \<open>
  Everything a run does besides returning: HTTP requests, console output
  (\<open>console.log\<close>, \<open>console.error\<close> with the value printed, \<open>console.clear\<close>),
  prompts, timer waits in milliseconds and calls of \<open>fs.writeFile\<close>. \<open>LogData\<close>
  is the raw body printed by \<open>checkTransactionStatus\<close>, and \<open>Display\<close> the block
  printed by \<open>displayTransactionStatus\<close>, which has no other effect.
\<close>

datatype event =
    Post string headers json
  | Get string headers
  | Log string
  | ErrorLog string "js_error option"
  | Prompt string
  | Sleep nat
  | WriteFile string json
  | Clear
  | LogData tx_response
  | Display txData

section \<open>The API client (thirdweb-client.ts)\<close>

record ThirdwebClient =
  config :: ThirdwebConfig
  client_headers :: headers

definition new_ThirdwebClient :: "ThirdwebConfig \<Rightarrow> ThirdwebClient" where
  "new_ThirdwebClient cfg =
     \<lparr>config = cfg,
      client_headers =
        [(''Content-Type'', ''application/json''),
         (''x-secret-key'', apiKey cfg),
         (''x-sdk-name'', ''typescript-wallet-creator''),
         (''x-sdk-version'', ''1.0.0'')]\<rparr>"

definition updateAuthHeaders :: "ThirdwebClient \<Rightarrow> string option \<Rightarrow> ThirdwebClient" where
  "updateAuthHeaders c tok =
     c\<lparr>client_headers := AList.update ''Authorization'' (''Bearer '' @ render tok) (client_headers c)\<rparr>"

subsection \<open>deployERC20Contract\<close>

definition constructorParams :: "string \<Rightarrow> TokenMetadata \<Rightarrow> (string \<times> json) list" where
  "constructorParams walletAddr tokenMetadata =
     [(''name'', JStr (name tokenMetadata)),
      (''symbol'', JStr (symbol tokenMetadata)),
      (''primarySaleRecipient'', JStr walletAddr)]
     @ (case initialSupply tokenMetadata of
          None \<Rightarrow> []
        | Some s \<Rightarrow> if s \<noteq> [] \<and> s \<noteq> ''0'' then [(''initialSupply'', JStr s)] else [])"

definition deployChainId :: "ThirdwebClient \<Rightarrow> jsnumber option \<Rightarrow> jsnumber" where
  "deployChainId c cid = or_num cid (or_num (ThirdwebConfig.chainId (config c)) (Num 1))"

definition deploy_payload :: "ThirdwebClient \<Rightarrow> string \<Rightarrow> TokenMetadata \<Rightarrow> jsnumber option \<Rightarrow> json" where
  "deploy_payload c walletAddr tokenMetadata cid =
     JObj [(''chainId'', JNum (deployChainId c cid)),
           (''contractUrl'', JStr ''https://thirdweb.com/thirdweb.eth/TokenERC20''),
           (''from'', JStr walletAddr),
           (''constructorParams'', JObj (constructorParams walletAddr tokenMetadata))]"

text \<open>
  The catch block of \<open>deployERC20Contract\<close>: log and re-throw.
\<close>

definition deploy_catch :: "js_error \<Rightarrow> event list \<Rightarrow> (js_error + ContractInfo) \<times> event list" where
  "deploy_catch e evs = (Inl e, evs @ [ErrorLog ''Error deploying ERC-20 contract:'' (Some e)])"

definition deployERC20Contract ::
  "ThirdwebClient \<Rightarrow> server \<Rightarrow> string \<Rightarrow> string \<Rightarrow> TokenMetadata \<Rightarrow> jsnumber option
     \<Rightarrow> (js_error + ContractInfo) \<times> event list" where
  "deployERC20Contract c srv now walletAddr tokenMetadata cid =
     (let payload = deploy_payload c walletAddr tokenMetadata cid;
          evs = [Log (''Deploying ERC-20 contract: '' @ name tokenMetadata @ '' ('' @ symbol tokenMetadata @ '')''),
                 Post ''/v1/contracts'' (client_headers c) payload]
      in case interceptor (contracts srv (client_headers c) payload) of
           Inl e \<Rightarrow> deploy_catch e evs
         | Inr data \<Rightarrow>
             (case result data of
                None \<Rightarrow>
                  deploy_catch
                    (Error (''Failed to deploy contract: '' @ or_str (DeployContractResponse.error data) ''Unknown error''))
                    evs
              | Some r \<Rightarrow>
                  (Inr \<lparr>contractAddress = address r,
                        transactionId = DeployContractResult.transactionId r,
                        chainId = deployChainId c cid,
                        deployer = walletAddr,
                        tokenName = name tokenMetadata,
                        tokenSymbol = symbol tokenMetadata,
                        tokenDescription = description tokenMetadata,
                        deployed_at = now\<rparr>,
                   evs @ [Log (''Contract deployed successfully at: '' @ address r)])))"

text \<open>The POST requests among the effects of a run.\<close>

fun posts :: "event list \<Rightarrow> (string \<times> json) list" where
  "posts [] = []"
| "posts (Post url h body # es) = (url, body) # posts es"
| "posts (_ # es) = posts es"

subsection \<open>sendLoginCode and verifyLoginCode\<close>

definition sendLoginCode ::
  "ThirdwebClient \<Rightarrow> server \<Rightarrow> string \<Rightarrow> (js_error + SendLoginCodeResponse) \<times> event list" where
  "sendLoginCode c srv mail =
     (let payload = JObj [(''email'', JStr mail), (''type'', JStr ''email'')];
          evs = [Post ''/v1/wallets/login/code'' (client_headers c) payload]
      in case interceptor (login_code srv (client_headers c) payload) of
           Inr data \<Rightarrow> (Inr data, evs)
         | Inl e \<Rightarrow> (Inl e, evs @ [ErrorLog ''Error sending login code:'' (Some e)]))"

definition verifyLoginCode ::
  "ThirdwebClient \<Rightarrow> server \<Rightarrow> string \<Rightarrow> string \<Rightarrow> (js_error + VerifyLoginCodeResponse) \<times> event list" where
  "verifyLoginCode c srv mail otp =
     (let payload = JObj [(''email'', JStr mail), (''code'', JStr otp), (''type'', JStr ''email'')];
          evs = [Post ''/v1/wallets/login/code/verify'' (client_headers c) payload]
      in case interceptor (login_code_verify srv (client_headers c) payload) of
           Inr data \<Rightarrow> (Inr data, evs)
         | Inl e \<Rightarrow> (Inl e, evs @ [ErrorLog ''Error verifying login code:'' (Some e)]))"

subsection \<open>createWalletWithEmail\<close>

text \<open>
  The OTP-retrieval callback is a computation over a state \<open>'s\<close> of its own (the
  unread lines of standard input, for the command-line tools): it returns a code or
  throws, with the new state and its console output, or never resolves (\<open>None\<close>).
  A run of \<open>createWalletWithEmail\<close> gives the returned \<open>WalletInfo\<close> or the
  thrown value, the client with its headers, the callback's state and the effects in
  order; the run is \<open>None\<close> when it awaits a callback that never resolves.

  The method declares two parameters. \<open>extra\<close> holds whatever a caller passes
  beyond them; a JavaScript call evaluates and drops such arguments.
\<close>

type_synonym 's otp_callback = "'s \<Rightarrow> ((js_error + string) \<times> 's \<times> event list) option"

type_synonym 's wallet_run = "((js_error + WalletInfo) \<times> ThirdwebClient \<times> 's \<times> event list) option"

text \<open>The catch block of \<open>createWalletWithEmail\<close>: log and re-throw.\<close>

definition create_catch :: "js_error \<Rightarrow> ThirdwebClient \<Rightarrow> 's \<Rightarrow> event list \<Rightarrow> 's wallet_run" where
  "create_catch e c s evs =
     Some (Inl e, c, s, evs @ [ErrorLog ''Error in wallet creation process:'' (Some e)])"

definition createWalletWithEmail ::
  "ThirdwebClient \<Rightarrow> server \<Rightarrow> string \<Rightarrow> string \<Rightarrow> 's otp_callback \<Rightarrow> string option list \<Rightarrow> 's
     \<Rightarrow> 's wallet_run" where
  "createWalletWithEmail c srv now mail getOtpCode extra s =
     (let ev0 = [Log (''Starting wallet creation process for email: '' @ mail),
                 Log ''Sending login code...'']
      in case sendLoginCode c srv mail of
           (Inl e, ev1) \<Rightarrow> create_catch e c s (ev0 @ ev1)
         | (Inr codeResponse, ev1) \<Rightarrow>
             if \<not> success codeResponse then
               create_catch
                 (Error (''Failed to send login code: ''
                           @ or_str (SendLoginCodeResponse.error codeResponse) ''Unknown error''))
                 c s (ev0 @ ev1)
             else
               (let ev2 = ev0 @ ev1 @ [Log ''Login code sent successfully. Please check your email.'']
                in case getOtpCode s of
                     None \<Rightarrow> None
                   | Some (Inl e, s', evo) \<Rightarrow> create_catch e c s' (ev2 @ evo)
                   | Some (Inr otpCode, s', evo) \<Rightarrow>
                       (let ev3 = ev2 @ evo @ [Log ''Verifying login code...'']
                        in case verifyLoginCode c srv mail otpCode of
                             (Inl e, ev4) \<Rightarrow> create_catch e c s' (ev3 @ ev4)
                           | (Inr verifyResponse, ev4) \<Rightarrow>
                               (case truthy (walletAddress verifyResponse) of
                                  None \<Rightarrow>
                                    create_catch
                                      (Error (''Failed to verify login code: ''
                                                @ or_str (VerifyLoginCodeResponse.error verifyResponse)
                                                    ''No wallet address returned''))
                                      c s' (ev3 @ ev4)
                                | Some addr \<Rightarrow>
                                    Some (Inr \<lparr>WalletInfo.address = addr,
                                               email = mail,
                                               created_at = Some now,
                                               chain_id = ThirdwebConfig.chainId (config c),
                                               isNewUser = Some (VerifyLoginCodeResponse.isNewUser verifyResponse),
                                               token = VerifyLoginCodeResponse.token verifyResponse,
                                               ecosystemId = None,
                                               ecosystemPartnerId = None\<rparr>,
                                          updateAuthHeaders c (VerifyLoginCodeResponse.token verifyResponse),
                                          s',
                                          ev3 @ ev4
                                            @ [Log (''Wallet created/accessed successfully: '' @ addr)])))))"

subsection \<open>getWalletInfo and getContractInfo\<close>

text \<open>What a lookup returns: \<open>null\<close>, or the \<open>result\<close> property of the body.\<close>

datatype 'a lookup = Null | Result "'a option"

fun string_of_nat :: "nat \<Rightarrow> string" where
  "string_of_nat n =
     (if n < 10 then [char_of (48 + n)]
      else string_of_nat (n div 10) @ [char_of (48 + n mod 10)])"

declare string_of_nat.simps [simp del]

text \<open>\<open>${n}\<close> for a number.\<close>

definition render_num :: "jsnumber \<Rightarrow> string" where
  "render_num n =
     (case n of
        NaN \<Rightarrow> ''NaN''
      | Num k \<Rightarrow> if k < 0 then ''-'' @ string_of_nat (nat (- k)) else string_of_nat (nat k))"

definition getWalletInfo ::
  "ThirdwebClient \<Rightarrow> server \<Rightarrow> string \<Rightarrow> (js_error + WalletInfo lookup) \<times> event list" where
  "getWalletInfo c srv walletAddr =
     (let url = ''/v1/wallets/'' @ walletAddr;
          evs = [Get url (client_headers c)]
      in case interceptor (wallets_get srv (client_headers c) url) of
           Inl e \<Rightarrow> (Inr Null, evs @ [ErrorLog ''Error getting wallet info:'' (Some e)])
         | Inr DataNull \<Rightarrow> (Inr Null, evs @ [ErrorLog ''Error getting wallet info:'' (Some TypeError)])
         | Inr (DataObj r) \<Rightarrow> (Inr (Result r), evs))"

definition getContractInfo ::
  "ThirdwebClient \<Rightarrow> server \<Rightarrow> string \<Rightarrow> jsnumber option \<Rightarrow> (js_error + json lookup) \<times> event list" where
  "getContractInfo c srv contractAddr cid =
     (let queryChainId = or_num cid (or_num (ThirdwebConfig.chainId (config c)) (Num 1));
          url = ''/v1/contracts/'' @ contractAddr @ ''?chainId='' @ render_num queryChainId;
          evs = [Get url (client_headers c)]
      in case interceptor (contracts_get srv (client_headers c) url) of
           Inl e \<Rightarrow> (Inr Null, evs @ [ErrorLog ''Error getting contract info:'' (Some e)])
         | Inr DataNull \<Rightarrow> (Inr Null, evs @ [ErrorLog ''Error getting contract info:'' (Some TypeError)])
         | Inr (DataObj r) \<Rightarrow> (Inr (Result r), evs))"

section \<open>The interactive wallet and deploy tool (index.ts)\<close>

subsection \<open>Prompts\<close>

text \<open>
  Standard input is the list of the lines still to be read. A prompt takes the next
  line and trims it; with no line left the prompt never resolves (\<open>None\<close>).
\<close>

definition is_space :: "char \<Rightarrow> bool" where
  "is_space ch = (of_char ch \<in> {9, 10, 11, 12, 13, 32, 160 :: nat})"

definition trim :: "string \<Rightarrow> string" where
  "trim s = rev (dropWhile is_space (rev (dropWhile is_space s)))"

definition askQuestion :: "string \<Rightarrow> string list \<Rightarrow> (string \<times> string list \<times> event list) option" where
  "askQuestion question ins =
     (case ins of [] \<Rightarrow> None | answer # rest \<Rightarrow> Some (trim answer, rest, [Prompt question]))"

text \<open>The effects \<open>evs\<close> happen before those of the run \<open>r\<close>.\<close>

definition after :: "event list \<Rightarrow> ('a \<times> 's \<times> event list) option \<Rightarrow> ('a \<times> 's \<times> event list) option" where
  "after evs r = (case r of None \<Rightarrow> None | Some (x, s, evs') \<Rightarrow> Some (x, s, evs @ evs'))"

function getOtpFromUser :: "string list otp_callback" where
  "getOtpFromUser ins =
     (case askQuestion ''Enter the OTP code from your email: '' ins of
        None \<Rightarrow> None
      | Some (otp, rest, evs) \<Rightarrow>
          if otp = [] \<or> length otp < 4 then
            after (evs @ [Log ''Invalid OTP code. Please try again.'']) (getOtpFromUser rest)
          else Some (Inr otp, rest, evs))"
  by pat_completeness auto
termination
  by (relation "measure length") (auto simp: askQuestion_def split: list.splits)

declare getOtpFromUser.simps [simp del]

subsection \<open>parseInt and toUpperCase\<close>

text \<open>
  The library function \<open>parseInt\<close> with no radix, as ECMAScript defines it: leading
  white space is skipped, then an optional sign, then an optional \<open>0x\<close>/\<open>0X\<close>
  that selects radix 16; the longest run of digits of the radix is read, and with no
  digit the result is \<open>NaN\<close>.
\<close>

definition digit_val :: "char \<Rightarrow> nat" where
  "digit_val ch =
     (let k = of_char ch :: nat
      in if 48 \<le> k \<and> k \<le> 57 then k - 48
         else if 97 \<le> k \<and> k \<le> 122 then k - 87
         else if 65 \<le> k \<and> k \<le> 90 then k - 55
         else 36)"

definition parseInt :: "string \<Rightarrow> jsnumber" where
  "parseInt input =
     (let s = dropWhile is_space input;
          (neg, s1) = (case s of
                         [] \<Rightarrow> (False, s)
                       | ch # rest \<Rightarrow>
                           if ch = CHR ''-'' then (True, rest)
                           else if ch = CHR ''+'' then (False, rest)
                           else (False, s));
          hex = (take 2 s1 = ''0x'' \<or> take 2 s1 = ''0X'');
          radix = (if hex then 16 else 10 :: nat);
          s2 = (if hex then drop 2 s1 else s1);
          z = takeWhile (\<lambda>ch. digit_val ch < radix) s2;
          mathInt = foldl (\<lambda>acc ch. acc * radix + digit_val ch) 0 z
      in if z = [] then NaN
         else Num (if neg then - int mathInt else int mathInt))"

text \<open>\<open>toUpperCase\<close> on the letters of ASCII; other characters are kept.\<close>

definition toUpperCase :: "string \<Rightarrow> string" where
  "toUpperCase s =
     map (\<lambda>ch. let k = of_char ch :: nat in if 97 \<le> k \<and> k \<le> 122 then char_of (k - 32) else ch) s"

subsection \<open>getTokenMetadata\<close>

text \<open>\<open>isNaN(decimals) || decimals < 0 || decimals > 18\<close>\<close>

definition invalid_decimals :: "jsnumber \<Rightarrow> bool" where
  "invalid_decimals d = (case d of NaN \<Rightarrow> True | Num k \<Rightarrow> k < 0 \<or> 18 < k)"

function getTokenMetadata :: "string list \<Rightarrow> (TokenMetadata \<times> string list \<times> event list) option" where
  \<open>getTokenMetadata ins =
     (let banner = [Log ''Token Configuration'', Log ''======================'']
      in case askQuestion ''Enter token name (e.g., "My Token"): '' ins of
           None \<Rightarrow> None
         | Some (tname, ins1, ev1) \<Rightarrow>
             if tname = [] then
               after (banner @ ev1 @ [Log ''Token name is required.'']) (getTokenMetadata ins1)
             else
               (case askQuestion ''Enter token symbol (e.g., "MTK"): '' ins1 of
                  None \<Rightarrow> None
                | Some (tsymbol, ins2, ev2) \<Rightarrow>
                    if tsymbol = [] then
                      after (banner @ ev1 @ ev2 @ [Log ''Token symbol is required.''])
                        (getTokenMetadata ins2)
                    else
                      (case askQuestion ''Enter token description: '' ins2 of
                         None \<Rightarrow> None
                       | Some (tdescription, ins3, ev3) \<Rightarrow>
                           if tdescription = [] then
                             after (banner @ ev1 @ ev2 @ ev3 @ [Log ''Token description is required.''])
                               (getTokenMetadata ins3)
                           else
                             (case askQuestion ''Enter token decimals (default: 18): '' ins3 of
                                None \<Rightarrow> None
                              | Some (decimalsInput, ins4, ev4) \<Rightarrow>
                                  (let tdecimals = (if decimalsInput \<noteq> [] then parseInt decimalsInput else Num 18);
                                       ev5 = (if invalid_decimals tdecimals
                                              then [Log ''Invalid decimals. Using default value of 18.'']
                                              else [])
                                   in case askQuestion ''Enter initial supply (default: 0): '' ins4 of
                                        None \<Rightarrow> None
                                      | Some (initialSupplyInput, ins5, ev6) \<Rightarrow>
                                          Some (\<lparr>name = tname,
                                                 symbol = toUpperCase tsymbol,
                                                 description = tdescription,
                                                 decimals = Some (if tdecimals = NaN then Num 18 else tdecimals),
                                                 initialSupply = Some (or_str (Some initialSupplyInput) ''0'')\<rparr>,
                                                ins5,
                                                banner @ ev1 @ ev2 @ ev3 @ ev4 @ ev5 @ ev6))))))\<close>
  by pat_completeness auto
termination
  by (relation "measure length") (auto simp: askQuestion_def split: list.splits)

declare getTokenMetadata.simps [simp del]

subsection \<open>Wallet creation and display in main (the variant with ecosystem support)\<close>

text \<open>
  \<open>number ? ... : ...\<close> on an optional number: \<open>undefined\<close>, \<open>NaN\<close> and
  \<open>0\<close> are falsy.
\<close>

definition truthy_num :: "jsnumber option \<Rightarrow> jsnumber option" where
  "truthy_num n =
     (case n of None \<Rightarrow> None | Some NaN \<Rightarrow> None | Some (Num k) \<Rightarrow> if k \<noteq> 0 then Some (Num k) else None)"

text \<open>The block printed after the wallet is created.\<close>

definition displayWallet :: "WalletInfo \<Rightarrow> event list" where
  "displayWallet walletInfo =
     [Log ''Wallet created successfully!'',
      Log ''================================'',
      Log (''Email: '' @ email walletInfo),
      Log (''Wallet Address: '' @ WalletInfo.address walletInfo),
      Log (''New User: '' @ (if WalletInfo.isNewUser walletInfo = Some True then ''Yes'' else ''No'')),
      Log (''Created At: '' @ render (created_at walletInfo))]
     @ (case truthy_num (chain_id walletInfo) of
          None \<Rightarrow> [] | Some n \<Rightarrow> [Log (''Chain ID: '' @ render_num n)])
     @ (case truthy (WalletInfo.ecosystemId walletInfo) of
          None \<Rightarrow> [] | Some e \<Rightarrow> [Log (''Ecosystem ID: '' @ e)])
     @ (case truthy (WalletInfo.ecosystemPartnerId walletInfo) of
          None \<Rightarrow> [] | Some e \<Rightarrow> [Log (''Ecosystem Partner ID: '' @ e)])
     @ [Log ''================================'']"

text \<open>
  The step of \<open>main\<close> that creates the wallet, passing the ecosystem id and partner
  id read before as third and fourth argument, and prints it. A thrown value goes to the
  catch block of \<open>main\<close>.
\<close>

definition main_createWallet ::
  "ThirdwebClient \<Rightarrow> server \<Rightarrow> string \<Rightarrow> string \<Rightarrow> string option \<Rightarrow> string option \<Rightarrow> string list
     \<Rightarrow> string list wallet_run" where
  "main_createWallet client srv now mail ecoId partnerId ins =
     (case createWalletWithEmail client srv now mail getOtpFromUser [ecoId, partnerId] ins of
        None \<Rightarrow> None
      | Some (Inl e, client', ins', evs) \<Rightarrow> Some (Inl e, client', ins', evs)
      | Some (Inr walletInfo, client', ins', evs) \<Rightarrow>
          Some (Inr walletInfo, client', ins', evs @ displayWallet walletInfo))"

subsection \<open>saveWalletInfo and saveCompleteInfo\<close>

text \<open>
  The document that \<open>JSON.stringify\<close> writes for an object: a property whose value
  is \<open>undefined\<close> is left out.
\<close>

definition stringify :: "(string \<times> json option) list \<Rightarrow> json" where
  "stringify props = JObj (concat (map (\<lambda>(k, v). case v of None \<Rightarrow> [] | Some j \<Rightarrow> [(k, j)]) props))"

text \<open>A number in a document: \<open>JSON.stringify\<close> writes \<open>NaN\<close> as \<open>null\<close>.\<close>

definition stringify_num :: "jsnumber \<Rightarrow> json" where
  "stringify_num n = (case n of NaN \<Rightarrow> JNull | Num k \<Rightarrow> JNum (Num k))"

definition stringify_WalletInfo :: "WalletInfo \<Rightarrow> json" where
  "stringify_WalletInfo w =
     stringify
       [(''address'', Some (JStr (WalletInfo.address w))),
        (''email'', Some (JStr (email w))),
        (''created_at'', map_option JStr (created_at w)),
        (''chain_id'', map_option stringify_num (chain_id w)),
        (''isNewUser'', map_option JBool (WalletInfo.isNewUser w)),
        (''token'', map_option JStr (WalletInfo.token w)),
        (''ecosystemId'', map_option JStr (WalletInfo.ecosystemId w)),
        (''ecosystemPartnerId'', map_option JStr (WalletInfo.ecosystemPartnerId w))]"

definition stringify_ContractInfo :: "ContractInfo \<Rightarrow> json" where
  "stringify_ContractInfo ci =
     stringify
       [(''contractAddress'', Some (JStr (contractAddress ci))),
        (''transactionId'', map_option JStr (ContractInfo.transactionId ci)),
        (''chainId'', Some (stringify_num (ContractInfo.chainId ci))),
        (''deployer'', Some (JStr (deployer ci))),
        (''tokenName'', Some (JStr (tokenName ci))),
        (''tokenSymbol'', Some (JStr (tokenSymbol ci))),
        (''tokenDescription'', Some (JStr (tokenDescription ci))),
        (''deployed_at'', Some (JStr (deployed_at ci)))]"

text \<open>\<open>{...walletInfo, token: walletInfo.token ? `${walletInfo.token.substring(0, 20)}...` : undefined}\<close>\<close>

definition safeWalletInfo :: "WalletInfo \<Rightarrow> WalletInfo" where
  "safeWalletInfo walletInfo =
     walletInfo\<lparr>WalletInfo.token :=
       (case truthy (WalletInfo.token walletInfo) of
          None \<Rightarrow> None
        | Some t \<Rightarrow> Some (take 20 t @ ''...''))\<rparr>"

text \<open>
  \<open>fs\<close> is the file system: the error \<open>fs.writeFile\<close> throws for a file name and
  content, if any. \<open>now_ms\<close> is \<open>Date.now()\<close>.
\<close>

definition saveWalletInfo :: "(string \<Rightarrow> json \<Rightarrow> js_error option) \<Rightarrow> nat \<Rightarrow> WalletInfo \<Rightarrow> event list" where
  "saveWalletInfo fs now_ms walletInfo =
     (let content = stringify_WalletInfo (safeWalletInfo walletInfo);
          filename = ''wallet-'' @ take 8 (WalletInfo.address walletInfo) @ ''-'' @ string_of_nat now_ms @ ''.json''
      in case fs filename content of
           None \<Rightarrow> [WriteFile filename content, Log (''Wallet information saved to: '' @ filename)]
         | Some e \<Rightarrow> [WriteFile filename content, ErrorLog ''Error saving wallet info:'' (Some e)])"

definition saveCompleteInfo ::
  "(string \<Rightarrow> json \<Rightarrow> js_error option) \<Rightarrow> nat \<Rightarrow> WalletInfo \<Rightarrow> ContractInfo \<Rightarrow> event list" where
  "saveCompleteInfo fs now_ms walletInfo contractInfo =
     (let content = JObj [(''wallet'', stringify_WalletInfo (safeWalletInfo walletInfo)),
                          (''contract'', stringify_ContractInfo contractInfo)];
          filename = ''deployment-'' @ take 8 (contractAddress contractInfo) @ ''-'' @ string_of_nat now_ms @ ''.json''
      in case fs filename content of
           None \<Rightarrow> [WriteFile filename content, Log (''Complete deployment information saved to: '' @ filename)]
         | Some e \<Rightarrow> [WriteFile filename content, ErrorLog ''Error saving complete info:'' (Some e)])"

text \<open>The documents handed to \<open>fs.writeFile\<close> during a run.\<close>

fun written :: "event list \<Rightarrow> json list" where
  "written [] = []"
| "written (WriteFile f content # es) = content # written es"
| "written (_ # es) = written es"

text \<open>The value of the \<open>token\<close> property of a wallet object in a saved document.\<close>

definition saved_token :: "json \<Rightarrow> string option" where
  "saved_token doc =
     (case doc of
        JObj props \<Rightarrow> (case map_of props ''token'' of Some (JStr t) \<Rightarrow> Some t | _ \<Rightarrow> None)
      | _ \<Rightarrow> None)"

section \<open>The transaction checker (check-transaction.ts)\<close>

text \<open>
  The service is the sequence of the outcomes of the requests still to come: \<open>rs 0\<close>
  answers the next request.
\<close>

type_synonym tx_server = "nat \<Rightarrow> tx_response axios_outcome"

definition checker_headers :: "string \<Rightarrow> headers" where
  "checker_headers key =
     [(''Content-Type'', ''application/json''),
      (''x-secret-key'', key),
      (''x-sdk-name'', ''typescript-transaction-checker''),
      (''x-sdk-version'', ''1.0.0'')]"

definition checkTransactionStatus ::
  "string \<Rightarrow> tx_server \<Rightarrow> string \<Rightarrow> (js_error + tx_response) \<times> event list" where
  "checkTransactionStatus key rs txId =
     (let evs = [Log (''Checking status for transaction: '' @ txId),
                 Get (''/v1/transactions/'' @ txId) (checker_headers key)]
      in case interceptor (rs 0) of
           Inr data \<Rightarrow> (Inr data, evs @ [Log ''Debug - Raw API Response:'', LogData data])
         | Inl e \<Rightarrow> (Inl e, evs @ [ErrorLog ''Error checking transaction status:'' (Some e)]))"

text \<open>\<open>response.result || response\<close>, which throws on a \<open>null\<close> body.\<close>

definition txData_of :: "tx_response \<Rightarrow> js_error + txData" where
  "txData_of response =
     (case response of TxNull \<Rightarrow> Inl TypeError | TxResult d \<Rightarrow> Inr d | TxBare d \<Rightarrow> Inr d)"

definition maxAttempts :: nat where
  "maxAttempts = 120"

text \<open>\<open>typeof error === 'object' && error !== null && 'status_code' in error\<close>\<close>

definition has_status_code :: "js_error \<Rightarrow> ApiError option" where
  "has_status_code e = (case e of ApiErr a \<Rightarrow> Some a | _ \<Rightarrow> None)"

text \<open>\<open>txData.status && txData.status !== 'pending'\<close>\<close>

definition no_longer_pending :: "txData \<Rightarrow> bool" where
  "no_longer_pending txd = (case truthy (status txd) of None \<Rightarrow> False | Some st \<Rightarrow> st \<noteq> ''pending'')"

text \<open>
  One iteration of the loop of watch mode, at a value of \<open>attempts\<close>: whether the
  loop is left by \<open>break\<close>, the new value of \<open>attempts\<close>, and the effects.
\<close>

definition watch_iteration ::
  "string \<Rightarrow> tx_server \<Rightarrow> string \<Rightarrow> bool \<Rightarrow> nat \<Rightarrow> bool \<times> nat \<times> event list" where
  "watch_iteration key rs txId debugMode attempts =
     (let (r, ev1) = checkTransactionStatus key rs txId
      in case (case r of Inl e \<Rightarrow> Inl e | Inr response \<Rightarrow> txData_of response) of
           Inr txd \<Rightarrow>
             (let ev2 = ev1
                        @ (if \<not> debugMode
                           then [Clear,
                                 Log (''Watching transaction '' @ txId @ '' (attempt ''
                                        @ string_of_nat (attempts + 1) @ ''/'' @ string_of_nat maxAttempts @ '')'')]
                           else [])
                        @ [Display txd]
              in if no_longer_pending txd then
                   (True, attempts, ev2 @ [Log (''Transaction '' @ render (status txd) @ ''! Stopping watch mode.'')])
                 else
                   (False, attempts + 1,
                    ev2 @ [Log (''Waiting 5 seconds before next check... ('' @ string_of_nat (attempts + 1)
                                  @ ''/'' @ string_of_nat maxAttempts @ '')''),
                           Sleep 5000]))
         | Inl e \<Rightarrow>
             (False, attempts + 1,
              ev1 @ [ErrorLog ''Error during watch:'' (Some e)]
              @ (case has_status_code e of
                   None \<Rightarrow> []
                 | Some apiError \<Rightarrow>
                     if status_code apiError = Some 404
                     then [Log ''Transaction not found. It may not exist or may not be indexed yet.'']
                     else [])
              @ (if attempts + 1 < maxAttempts
                 then [Log (''Retrying in 5 seconds... ('' @ string_of_nat (attempts + 1)
                              @ ''/'' @ string_of_nat maxAttempts @ '')''),
                       Sleep 5000]
                 else [])))"

text \<open>
  The loop \<open>while (attempts < maxAttempts)\<close> from a value of \<open>attempts\<close>: the final
  value of \<open>attempts\<close> and the effects.
\<close>

function watch :: "string \<Rightarrow> tx_server \<Rightarrow> string \<Rightarrow> bool \<Rightarrow> nat \<Rightarrow> nat \<times> event list" where
  "watch key rs txId debugMode attempts =
     (if attempts < maxAttempts then
        (case watch_iteration key rs txId debugMode attempts of
           (stop, attempts', evs) \<Rightarrow>
             if stop then (attempts', evs)
             else (case watch key (\<lambda>i. rs (Suc i)) txId debugMode attempts' of
                     (n, evs') \<Rightarrow> (n, evs @ evs')))
      else (attempts, []))"
  by pat_completeness auto
termination
  by (relation "measure (\<lambda>(key, rs, txId, debugMode, attempts). maxAttempts - attempts)")
     (auto simp: watch_iteration_def Let_def split: prod.splits sum.splits if_splits)

declare watch.simps [simp del]

text \<open>The catch block of \<open>main\<close>, which ends with \<open>process.exit(1)\<close>.\<close>

definition main_catch :: "js_error \<Rightarrow> event list" where
  "main_catch e =
     ErrorLog ''Error checking transaction:'' (Some e)
     # (case has_status_code e of
          None \<Rightarrow> []
        | Some apiError \<Rightarrow>
            [ErrorLog (''Status: '' @ (case status_code apiError of None \<Rightarrow> ''undefined''
                                                                   | Some k \<Rightarrow> render_num (Num k))) None,
             ErrorLog (''Message: '' @ render (message apiError)) None]
            @ (if status_code apiError = Some 404
               then [Log ''Tip: Make sure the transaction ID is correct and the transaction exists.'']
               else []))"

text \<open>
  \<open>main\<close>, from the command-line arguments, \<open>THIRDWEB_API_KEY\<close> and the service: the
  effects and the status of \<open>process.exit\<close> (\<open>None\<close> when \<open>main\<close> returns). The
  help text is cut to its title, and the base URL, which only selects the service, is
  left out.
\<close>

definition main :: "string list \<Rightarrow> string option \<Rightarrow> tx_server \<Rightarrow> event list \<times> nat option" where
  "main args apiKeyEnv rs =
     (if ''--help'' \<in> set args \<or> ''-h'' \<in> set args then
        ([Log ''Thirdweb Transaction Status Checker''], Some 0)
      else
        (let watchMode = (''--watch'' \<in> set args \<or> ''-w'' \<in> set args);
             debugMode = (''--debug'' \<in> set args \<or> ''-d'' \<in> set args)
         in case truthy (case args of [] \<Rightarrow> None | a # _ \<Rightarrow> Some a) of
              None \<Rightarrow>
                ([ErrorLog ''Error: Transaction ID is required'' None,
                  Log ''Usage: npm run check-tx <transaction-id>'',
                  Log ''Example: npm run check-tx abc123-def456-ghi789''],
                 Some 1)
            | Some txId \<Rightarrow>
                (case truthy apiKeyEnv of
                   None \<Rightarrow>
                     ([ErrorLog ''Error: THIRDWEB_API_KEY is required in environment variables'' None,
                       Log ''Please create a .env file with your Thirdweb Secret Key''],
                      Some 1)
                 | Some key \<Rightarrow>
                     if watchMode then
                       (case watch key rs txId debugMode 0 of
                          (attempts, evs) \<Rightarrow>
                            ([Log (''Watching transaction '' @ txId @ '' until completion...''),
                              Log ''Press Ctrl+C to stop watching'']
                             @ evs
                             @ (if attempts \<ge> maxAttempts
                                then [Log ''Reached maximum watch time. Exiting...'']
                                else []),
                             None))
                     else
                       (case checkTransactionStatus key rs txId of
                          (r, ev1) \<Rightarrow>
                            (case (case r of Inl e \<Rightarrow> Inl e | Inr response \<Rightarrow> txData_of response) of
                               Inr txd \<Rightarrow>
                                 (ev1 @ (if \<not> debugMode then [Log [CHR 0x0A]] else []) @ [Display txd], None)
                             | Inl e \<Rightarrow> (ev1 @ main_catch e, Some 1))))))"

text \<open>The polling requests and the timer waits among the effects of a run.\<close>

fun polls_and_waits :: "event list \<Rightarrow> event list" where
  "polls_and_waits [] = []"
| "polls_and_waits (Get url h # es) = Get url h # polls_and_waits es"
| "polls_and_waits (Sleep ms # es) = Sleep ms # polls_and_waits es"
| "polls_and_waits (_ # es) = polls_and_waits es"

fun polls :: "event list \<Rightarrow> nat" where
  "polls [] = 0"
| "polls (Get url h # es) = Suc (polls es)"
| "polls (_ # es) = polls es"

subsection \<open>Reading a run of watch mode\<close>

text \<open>
  The status that an outcome of the status request reports, if any: a failed request and
  a \<open>null\<close> body report none.
\<close>

definition reported_status :: "tx_response axios_outcome \<Rightarrow> string option" where
  "reported_status out =
     (case out of
        Fulfilled (TxResult d) \<Rightarrow> status d
      | Fulfilled (TxBare d) \<Rightarrow> status d
      | _ \<Rightarrow> None)"

text \<open>An outcome that reports a status, not empty, other than \<open>"pending"\<close>.\<close>

definition terminal :: "tx_response axios_outcome \<Rightarrow> bool" where
  "terminal out =
     (case reported_status out of None \<Rightarrow> False | Some st \<Rightarrow> st \<noteq> [] \<and> st \<noteq> ''pending'')"

text \<open>
  A sequence of polling requests and timer waits in which each request but the last is
  followed by one wait of 5000 milliseconds and then the next request; after the last
  request there may be one such wait.
\<close>

fun alternating :: "event list \<Rightarrow> bool" where
  "alternating [] = True"
| "alternating [Get url h] = True"
| "alternating (Get url h # Sleep ms # es) = (ms = 5000 \<and> alternating es)"
| "alternating _ = False"

section \<open>Concrete inputs\<close>

definition demo_config :: ThirdwebConfig where
  "demo_config =
     \<lparr>apiKey = ''secret-key'', baseUrl = ''https://api.thirdweb.com'', chainId = Some (Num 1),
      ecosystemId = Some ''my-ecosystem'', ecosystemPartnerId = None\<rparr>"

definition demo_client :: ThirdwebClient where
  "demo_client = new_ThirdwebClient demo_config"

text \<open>A service that gives the same answer to every request of an endpoint.\<close>

definition fixed_server ::
  "SendLoginCodeResponse axios_outcome \<Rightarrow> VerifyLoginCodeResponse axios_outcome
     \<Rightarrow> DeployContractResponse axios_outcome \<Rightarrow> server" where
  "fixed_server a b d =
     \<lparr>login_code = (\<lambda>h body. a),
      login_code_verify = (\<lambda>h body. b),
      contracts = (\<lambda>h body. d),
      wallets_get = (\<lambda>h url. Rejected None ''timeout of 30000ms exceeded''),
      contracts_get = (\<lambda>h url. Rejected None ''timeout of 30000ms exceeded'')\<rparr>"

definition code_refused :: SendLoginCodeResponse where
  "code_refused = \<lparr>success = False, error = Some ''rate limited''\<rparr>"

definition code_sent :: SendLoginCodeResponse where
  "code_sent = \<lparr>success = True, error = None\<rparr>"

definition verified_without_address :: VerifyLoginCodeResponse where
  "verified_without_address =
     \<lparr>VerifyLoginCodeResponse.isNewUser = True, token = Some ''eyJhbGciOiJIUzI1NiJ9.payload.signature'', walletAddress = None,
      error = None\<rparr>"

definition verified :: VerifyLoginCodeResponse where
  "verified =
     \<lparr>VerifyLoginCodeResponse.isNewUser = True, token = Some ''eyJhbGciOiJIUzI1NiJ9.payload.signature'',
      walletAddress = Some ''0x1234567890abcdef'', error = None\<rparr>"

definition deployed :: DeployContractResponse where
  "deployed =
     \<lparr>result = Some \<lparr>address = ''0xc0ffee'', chainId = Num 1, transactionId = Some ''tx-1''\<rparr>,
      error = None\<rparr>"

text \<open>A callback that never resolves.\<close>

definition never_resolves :: "unit otp_callback" where
  "never_resolves u = None"

definition demo_token :: TokenMetadata where
  "demo_token =
     \<lparr>name = ''My Token'', symbol = ''MTK'', description = ''A token'', decimals = Some (Num 18),
      initialSupply = Some ''1000000''\<rparr>"

definition empty_supply_token :: TokenMetadata where
  "empty_supply_token =
     \<lparr>name = ''My Token'', symbol = ''MTK'', description = ''A token'', decimals = Some (Num 18),
      initialSupply = Some []\<rparr>"

definition demo_wallet :: WalletInfo where
  "demo_wallet =
     \<lparr>WalletInfo.address = ''0x1234567890abcdef'', email = ''user@example.com'',
      created_at = Some ''2026-01-01T00:00:00.000Z'', chain_id = Some (Num 1), isNewUser = Some True,
      token = Some ''eyJhbGciOiJIUzI1NiJ9.payload.signature'', ecosystemId = None,
      ecosystemPartnerId = None\<rparr>"

definition server_error :: "'a axios_outcome" where
  "server_error =
     Rejected (Some \<lparr>response_status = 500, data_error = Some ''Internal'', data_message = None\<rparr>)
       ''Request failed with status code 500''"

definition short_token_wallet :: WalletInfo where
  "short_token_wallet =
     \<lparr>WalletInfo.address = ''0x1234567890abcdef'', email = ''user@example.com'',
      created_at = Some ''2026-01-01T00:00:00.000Z'', chain_id = Some (Num 1), isNewUser = Some True,
      token = Some ''abc'', ecosystemId = None, ecosystemPartnerId = None\<rparr>"

definition demo_contract :: ContractInfo where
  "demo_contract =
     \<lparr>contractAddress = ''0xc0ffee'', transactionId = Some ''tx-1'', chainId = Num 1,
      deployer = ''0x1234567890abcdef'', tokenName = ''My Token'', tokenSymbol = ''MTK'',
      tokenDescription = ''A token'', deployed_at = ''2026-01-01T00:00:00.000Z''\<rparr>"

text \<open>A file system on which every write succeeds.\<close>

definition fs_ok :: "string \<Rightarrow> json \<Rightarrow> js_error option" where
  "fs_ok filename content = None"

definition tx_with_status :: "string option \<Rightarrow> tx_response axios_outcome" where
  "tx_with_status st = Fulfilled (TxResult \<lparr>status = st, others = [(''transactionId'', JStr ''tx-1'')]\<rparr>)"

definition tx_not_found :: "tx_response axios_outcome" where
  "tx_not_found =
     Rejected (Some \<lparr>response_status = 404, data_error = Some ''Not Found'', data_message = None\<rparr>)
       ''Request failed with status code 404''"

text \<open>The first answer has no status; every later one is pending.\<close>

definition status_missing_then_pending :: tx_server where
  "status_missing_then_pending i = (if i = 0 then tx_with_status None else tx_with_status (Some ''pending''))"

text \<open>Two pending answers, then a completed one.\<close>

definition completed_at_third :: tx_server where
  "completed_at_third i = (if i < 2 then tx_with_status (Some ''pending'') else tx_with_status (Some ''completed''))"

text \<open>The transaction is not found at the first request and pending afterwards.\<close>

definition not_found_then_pending :: tx_server where
  "not_found_then_pending i = (if i = 0 then tx_not_found else tx_with_status (Some ''pending''))"

section \<open>Properties of the API client\<close>

lemma deploy_posts:
  "posts (snd (deployERC20Contract c srv now wa tm cid)) = [(''/v1/contracts'', deploy_payload c wa tm cid)]"
  by (simp add: deployERC20Contract_def deploy_catch_def Let_def split: sum.splits option.splits)

lemma deploy_description:
  "fst (deployERC20Contract c srv now wa tm cid) = Inr ci \<Longrightarrow> tokenDescription ci = description tm"
  by (auto simp: deployERC20Contract_def deploy_catch_def Let_def split: sum.splits option.splits)

text \<open>
  C2, as stated, fails: an \<open>initialSupply\<close> that is the empty string is neither absent
  nor \<open>"0"\<close>, and the constructor parameters of the request leave the key out.
\<close>

theorem deploy_omits_empty_initialSupply:
  "initialSupply empty_supply_token \<noteq> None
   \<and> initialSupply empty_supply_token \<noteq> Some ''0''
   \<and> posts (snd (deployERC20Contract demo_client (fixed_server (Fulfilled code_sent) (Fulfilled verified) (Fulfilled deployed))
                   ''2026-01-01T00:00:00.000Z'' ''0x1234567890abcdef'' empty_supply_token None))
       = [(''/v1/contracts'',
           JObj [(''chainId'', JNum (Num 1)),
                 (''contractUrl'', JStr ''https://thirdweb.com/thirdweb.eth/TokenERC20''),
                 (''from'', JStr ''0x1234567890abcdef''),
                 (''constructorParams'',
                  JObj [(''name'', JStr ''My Token''), (''symbol'', JStr ''MTK''),
                        (''primarySaleRecipient'', JStr ''0x1234567890abcdef'')])])]"
  by (simp add: deployERC20Contract_def deploy_payload_def constructorParams_def deployChainId_def
        or_num_def empty_supply_token_def demo_client_def new_ThirdwebClient_def demo_config_def
        fixed_server_def interceptor_def deployed_def Let_def)

text \<open>
  C2, amended: every call of \<open>deployERC20Contract\<close> sends one request,
  \<open>POST /v1/contracts\<close>, whose \<open>constructorParams\<close> object has no
  \<open>initialSupply\<close> key when \<open>tokenMetadata.initialSupply\<close> is absent, the empty
  string or exactly \<open>"0"\<close>, and has the key, with the given value, for every other
  value.
\<close>

theorem deploy_initialSupply_key:
  "posts (snd (deployERC20Contract c srv now wa tm cid))
     = [(''/v1/contracts'',
         JObj [(''chainId'', JNum (deployChainId c cid)),
               (''contractUrl'', JStr ''https://thirdweb.com/thirdweb.eth/TokenERC20''),
               (''from'', JStr wa),
               (''constructorParams'', JObj (constructorParams wa tm))])]
   \<and> map_of (constructorParams wa tm) ''initialSupply''
       = (case initialSupply tm of
            None \<Rightarrow> None
          | Some s \<Rightarrow> if s = [] \<or> s = ''0'' then None else Some (JStr s))"
  by (simp add: deploy_posts deploy_payload_def constructorParams_def split: option.splits)

text \<open>
  C10: two token metadata values that differ in \<open>decimals\<close> and \<open>description\<close>
  only make \<open>deployERC20Contract\<close> send the same requests; the description goes to
  the returned \<open>ContractInfo\<close> only.
\<close>

theorem deploy_request_ignores_decimals_and_description:
  assumes "name tm1 = name tm2" and "symbol tm1 = symbol tm2"
    and "initialSupply tm1 = initialSupply tm2"
  shows "posts (snd (deployERC20Contract c srv now wa tm1 cid))
           = posts (snd (deployERC20Contract c srv now wa tm2 cid))
         \<and> (\<forall>ci. fst (deployERC20Contract c srv now wa tm1 cid) = Inr ci
                \<longrightarrow> tokenDescription ci = description tm1)"
proof -
  have "deploy_payload c wa tm1 cid = deploy_payload c wa tm2 cid"
    using assms by (simp add: deploy_payload_def constructorParams_def)
  then show ?thesis
    by (simp add: deploy_posts deploy_description)
qed

theorem deploy_request_ignores_decimals_and_description_witness:
  "posts (snd (deployERC20Contract demo_client (fixed_server (Fulfilled code_sent) (Fulfilled verified) (Fulfilled deployed))
                 ''2026-01-01T00:00:00.000Z'' ''0x1234567890abcdef'' demo_token None))
     = posts (snd (deployERC20Contract demo_client (fixed_server (Fulfilled code_sent) (Fulfilled verified) (Fulfilled deployed))
                 ''2026-01-01T00:00:00.000Z'' ''0x1234567890abcdef''
                 (demo_token\<lparr>description := ''Another text'', decimals := Some (Num 6)\<rparr>) None))
   \<and> fst (deployERC20Contract demo_client (fixed_server (Fulfilled code_sent) (Fulfilled verified) (Fulfilled deployed))
                 ''2026-01-01T00:00:00.000Z'' ''0x1234567890abcdef'' demo_token None)
       = Inr \<lparr>contractAddress = ''0xc0ffee'', transactionId = Some ''tx-1'', chainId = Num 1,
               deployer = ''0x1234567890abcdef'', tokenName = ''My Token'', tokenSymbol = ''MTK'',
               tokenDescription = ''A token'', deployed_at = ''2026-01-01T00:00:00.000Z''\<rparr>"
  using deploy_request_ignores_decimals_and_description
          [of demo_token "demo_token\<lparr>description := ''Another text'', decimals := Some (Num 6)\<rparr>"
              demo_client "fixed_server (Fulfilled code_sent) (Fulfilled verified) (Fulfilled deployed)"
              "''2026-01-01T00:00:00.000Z''" "''0x1234567890abcdef''" None]
  by (simp add: deployERC20Contract_def deploy_payload_def constructorParams_def deployChainId_def
        or_num_def demo_token_def demo_client_def new_ThirdwebClient_def demo_config_def
        fixed_server_def interceptor_def deployed_def Let_def)

text \<open>
  C3: when the answer of \<open>sendLoginCode\<close> has \<open>success\<close> false,
  \<open>createWalletWithEmail\<close> throws an error that carries the reason. The run is the
  same for every OTP callback, also one that never resolves, and leaves the callback's
  state as it was: the callback is not invoked. Its only request is the one of
  \<open>sendLoginCode\<close>: \<open>verifyLoginCode\<close> is not invoked.
\<close>

theorem createWallet_fails_when_code_not_sent:
  assumes "fst (sendLoginCode c srv mail) = Inr codeResponse" and "\<not> success codeResponse"
  shows "createWalletWithEmail c srv now mail getOtpCode extra s =
           Some (Inl (Error (''Failed to send login code: ''
                              @ or_str (SendLoginCodeResponse.error codeResponse) ''Unknown error'')),
                 c, s,
                 [Log (''Starting wallet creation process for email: '' @ mail),
                  Log ''Sending login code...'',
                  Post ''/v1/wallets/login/code'' (client_headers c)
                    (JObj [(''email'', JStr mail), (''type'', JStr ''email'')]),
                  ErrorLog ''Error in wallet creation process:''
                    (Some (Error (''Failed to send login code: ''
                                   @ or_str (SendLoginCodeResponse.error codeResponse) ''Unknown error'')))])"
  using assms
  by (auto simp: createWalletWithEmail_def sendLoginCode_def create_catch_def Let_def split: sum.splits)

theorem createWallet_fails_when_code_not_sent_witness:
  "fst (sendLoginCode demo_client (fixed_server (Fulfilled code_refused) (Fulfilled verified) (Fulfilled deployed))
          ''user@example.com'') = Inr code_refused
   \<and> \<not> success code_refused
   \<and> createWalletWithEmail demo_client
         (fixed_server (Fulfilled code_refused) (Fulfilled verified) (Fulfilled deployed))
         ''2026-01-01T00:00:00.000Z'' ''user@example.com'' never_resolves [] () =
       Some (Inl (Error ''Failed to send login code: rate limited''), demo_client, (),
             [Log ''Starting wallet creation process for email: user@example.com'',
              Log ''Sending login code...'',
              Post ''/v1/wallets/login/code'' (client_headers demo_client)
                (JObj [(''email'', JStr ''user@example.com''), (''type'', JStr ''email'')]),
              ErrorLog ''Error in wallet creation process:''
                (Some (Error ''Failed to send login code: rate limited''))])"
proof -
  have sent: "fst (sendLoginCode demo_client (fixed_server (Fulfilled code_refused) (Fulfilled verified) (Fulfilled deployed))
                     ''user@example.com'') = Inr code_refused"
    by (simp add: sendLoginCode_def fixed_server_def interceptor_def Let_def)
  have refused: "\<not> success code_refused"
    by (simp add: code_refused_def)
  show ?thesis
    using sent refused
      createWallet_fails_when_code_not_sent [OF sent refused, of "''2026-01-01T00:00:00.000Z''" never_resolves "[]" "()"]
    by (simp add: or_str_def code_refused_def)
qed

lemma createWallet_outcome:
  assumes "createWalletWithEmail c srv now mail getOtpCode extra s = Some (r, c', s', evs)"
  shows "case r of
           Inl e \<Rightarrow> c' = c
         | Inr w \<Rightarrow> c' = updateAuthHeaders c (WalletInfo.token w) \<and> created_at w = Some now
                    \<and> WalletInfo.ecosystemId w = None \<and> WalletInfo.ecosystemPartnerId w = None"
  using assms
  by (auto simp: createWalletWithEmail_def create_catch_def Let_def
           split: sum.splits prod.splits option.splits if_splits)

lemma updateAuthHeaders_Authorization:
  "map_of (client_headers (updateAuthHeaders c tok)) ''Authorization'' = Some (''Bearer '' @ render tok)"
  by (simp add: updateAuthHeaders_def update_conv')

text \<open>
  C4: when the answer of \<open>verifyLoginCode\<close> has no \<open>walletAddress\<close>,
  \<open>createWalletWithEmail\<close> throws, whatever \<open>token\<close> the answer has, and the client
  keeps the headers it had. In every run that throws the client is unchanged; in every
  run that returns a \<open>WalletInfo\<close>, the \<open>Authorization\<close> header is the bearer token
  of that \<open>WalletInfo\<close>, and \<open>created_at\<close> is the current time.
\<close>

theorem createWallet_fails_without_walletAddress:
  "(fst (sendLoginCode c srv mail) = Inr codeResponse \<and> success codeResponse
      \<and> getOtpCode s = Some (Inr otpCode, s', evo)
      \<and> fst (verifyLoginCode c srv mail otpCode) = Inr verifyResponse
      \<and> truthy (walletAddress verifyResponse) = None
    \<longrightarrow> (\<exists>evs. createWalletWithEmail c srv now mail getOtpCode extra s =
           Some (Inl (Error (''Failed to verify login code: ''
                              @ or_str (VerifyLoginCodeResponse.error verifyResponse)
                                  ''No wallet address returned'')),
                 c, s', evs)))
   \<and> (\<forall>r c2 s2 evs. createWalletWithEmail c srv now mail getOtpCode extra s = Some (r, c2, s2, evs)
        \<longrightarrow> (case r of
               Inl e \<Rightarrow> c2 = c
             | Inr w \<Rightarrow>
                 c2 = updateAuthHeaders c (WalletInfo.token w)
                 \<and> map_of (client_headers c2) ''Authorization'' = Some (''Bearer '' @ render (WalletInfo.token w))
                 \<and> created_at w = Some now))"
proof (intro conjI impI allI)
  assume "fst (sendLoginCode c srv mail) = Inr codeResponse \<and> success codeResponse
      \<and> getOtpCode s = Some (Inr otpCode, s', evo)
      \<and> fst (verifyLoginCode c srv mail otpCode) = Inr verifyResponse
      \<and> truthy (walletAddress verifyResponse) = None"
  then show "\<exists>evs. createWalletWithEmail c srv now mail getOtpCode extra s =
           Some (Inl (Error (''Failed to verify login code: ''
                              @ or_str (VerifyLoginCodeResponse.error verifyResponse)
                                  ''No wallet address returned'')),
                 c, s', evs)"
    by (auto simp: createWalletWithEmail_def create_catch_def Let_def split: sum.splits prod.splits)
next
  fix r c2 s2 evs
  assume "createWalletWithEmail c srv now mail getOtpCode extra s = Some (r, c2, s2, evs)"
  from createWallet_outcome [OF this]
  show "case r of
          Inl e \<Rightarrow> c2 = c
        | Inr w \<Rightarrow>
            c2 = updateAuthHeaders c (WalletInfo.token w)
            \<and> map_of (client_headers c2) ''Authorization'' = Some (''Bearer '' @ render (WalletInfo.token w))
            \<and> created_at w = Some now"
    by (auto simp: updateAuthHeaders_Authorization split: sum.splits)
qed

theorem createWallet_fails_without_walletAddress_witness:
  "truthy (walletAddress verified_without_address) = None
   \<and> VerifyLoginCodeResponse.token verified_without_address = Some ''eyJhbGciOiJIUzI1NiJ9.payload.signature''
   \<and> (\<exists>evs. createWalletWithEmail demo_client
              (fixed_server (Fulfilled code_sent) (Fulfilled verified_without_address) (Fulfilled deployed))
              ''2026-01-01T00:00:00.000Z'' ''user@example.com'' getOtpFromUser [] [''123456''] =
            Some (Inl (Error ''Failed to verify login code: No wallet address returned''), demo_client, [], evs))
   \<and> map_of (client_headers demo_client) ''Authorization'' = None"
proof -
  let ?srv = "fixed_server (Fulfilled code_sent) (Fulfilled verified_without_address) (Fulfilled deployed)"
  have pre: "fst (sendLoginCode demo_client ?srv ''user@example.com'') = Inr code_sent \<and> success code_sent
      \<and> getOtpFromUser [''123456''] = Some (Inr ''123456'', [], [Prompt ''Enter the OTP code from your email: ''])
      \<and> fst (verifyLoginCode demo_client ?srv ''user@example.com'' ''123456'') = Inr verified_without_address
      \<and> truthy (walletAddress verified_without_address) = None"
    by (simp add: sendLoginCode_def verifyLoginCode_def fixed_server_def interceptor_def Let_def
          code_sent_def verified_without_address_def truthy_def getOtpFromUser.simps askQuestion_def
          trim_def is_space_def)
  from createWallet_fails_without_walletAddress
         [of demo_client ?srv "''user@example.com''" code_sent getOtpFromUser "[''123456'']" "''123456''"
             "[]" "[Prompt ''Enter the OTP code from your email: '']" verified_without_address
             "''2026-01-01T00:00:00.000Z''" "[]"]
       pre
  show ?thesis
    by (simp add: or_str_def verified_without_address_def demo_client_def new_ThirdwebClient_def truthy_def)
qed

text \<open>
  C8: when the request of \<open>getWalletInfo\<close> or \<open>getContractInfo\<close> fails, with the
  normalized \<open>ApiError\<close> or any other thrown value, the lookup returns \<open>null\<close>;
  neither lookup ever throws. The write paths \<open>sendLoginCode\<close>,
  \<open>verifyLoginCode\<close> and \<open>deployERC20Contract\<close> throw the error of their request
  again.
\<close>

theorem lookups_return_null_on_failure:
  "(\<forall>e. interceptor (wallets_get srv (client_headers c) (''/v1/wallets/'' @ a)) = Inl e
        \<longrightarrow> fst (getWalletInfo c srv a) = Inr Null)
   \<and> (\<forall>e. interceptor (contracts_get srv (client_headers c)
                          (''/v1/contracts/'' @ a @ ''?chainId=''
                             @ render_num (or_num cid (or_num (ThirdwebConfig.chainId (config c)) (Num 1)))))
             = Inl e
        \<longrightarrow> fst (getContractInfo c srv a cid) = Inr Null)
   \<and> (\<forall>e. fst (getWalletInfo c srv a) \<noteq> Inl e)
   \<and> (\<forall>e. fst (getContractInfo c srv a cid) \<noteq> Inl e)
   \<and> (\<forall>e. interceptor (login_code srv (client_headers c)
                          (JObj [(''email'', JStr mail), (''type'', JStr ''email'')])) = Inl e
        \<longrightarrow> fst (sendLoginCode c srv mail) = Inl e)
   \<and> (\<forall>e. interceptor (login_code_verify srv (client_headers c)
                          (JObj [(''email'', JStr mail), (''code'', JStr otp), (''type'', JStr ''email'')])) = Inl e
        \<longrightarrow> fst (verifyLoginCode c srv mail otp) = Inl e)
   \<and> (\<forall>e. interceptor (contracts srv (client_headers c) (deploy_payload c a tm cid)) = Inl e
        \<longrightarrow> fst (deployERC20Contract c srv now a tm cid) = Inl e)"
  by (auto simp: getWalletInfo_def getContractInfo_def sendLoginCode_def verifyLoginCode_def
        deployERC20Contract_def deploy_catch_def Let_def
      split: sum.splits get_data.splits)

theorem lookups_return_null_on_failure_witness:
  "getWalletInfo demo_client (fixed_server server_error server_error server_error) ''0x1234567890abcdef''
     = (Inr Null,
        [Get ''/v1/wallets/0x1234567890abcdef'' (client_headers demo_client),
         ErrorLog ''Error getting wallet info:'' (Some (Error ''timeout of 30000ms exceeded''))])
   \<and> fst (getContractInfo demo_client (fixed_server server_error server_error server_error) ''0xc0ffee'' None)
       = Inr Null
   \<and> fst (sendLoginCode demo_client (fixed_server server_error server_error server_error) ''user@example.com'')
       = Inl (ApiErr \<lparr>ApiError.error = ''Internal'', message = Some ''Request failed with status code 500'',
                       status_code = Some 500\<rparr>)"
  using lookups_return_null_on_failure
          [of "fixed_server server_error server_error server_error" demo_client "''0x1234567890abcdef''"]
        lookups_return_null_on_failure
          [of "fixed_server server_error server_error server_error" demo_client "''0xc0ffee''" None
              "''user@example.com''"]
  by (simp add: getWalletInfo_def fixed_server_def server_error_def interceptor_def or_str_def Let_def)

text \<open>
  C9: a \<open>WalletInfo\<close> returned by \<open>createWalletWithEmail\<close> has neither
  \<open>ecosystemId\<close> nor \<open>ecosystemPartnerId\<close>, whatever is passed beyond the two
  declared parameters: the run is the one with no further argument. So \<open>main\<close> of
  the variant with ecosystem support, which passes both ids, runs as it does with none,
  and the block it prints for the wallet has no line for either id.
\<close>

theorem createWallet_never_sets_ecosystem:
  assumes "createWalletWithEmail c srv now mail getOtpCode extra s = Some (Inr w, c', s', evs)"
  shows "WalletInfo.ecosystemId w = None \<and> WalletInfo.ecosystemPartnerId w = None
         \<and> createWalletWithEmail c srv now mail getOtpCode [] s = Some (Inr w, c', s', evs)
         \<and> main_createWallet c srv now mail ecoId partnerId ins = main_createWallet c srv now mail None None ins
         \<and> (\<forall>x. Log (''Ecosystem ID: '' @ x) \<notin> set (displayWallet w))
         \<and> (\<forall>x. Log (''Ecosystem Partner ID: '' @ x) \<notin> set (displayWallet w))"
proof -
  from createWallet_outcome [OF assms]
  have none: "WalletInfo.ecosystemId w = None \<and> WalletInfo.ecosystemPartnerId w = None"
    by simp
  have same: "createWalletWithEmail c srv now mail g x st = createWalletWithEmail c srv now mail g [] st"
    for g :: "'b otp_callback" and x st
    by (simp add: createWalletWithEmail_def)
  have main_same: "main_createWallet c srv now mail ecoId partnerId ins = main_createWallet c srv now mail None None ins"
    unfolding main_createWallet_def
    by (simp add: same [of getOtpFromUser "[ecoId, partnerId]"] same [of getOtpFromUser "[None, None]"])
  have no_line: "(\<forall>x. Log (''Ecosystem ID: '' @ x) \<notin> set (displayWallet w))
         \<and> (\<forall>x. Log (''Ecosystem Partner ID: '' @ x) \<notin> set (displayWallet w))"
    using none by (simp add: displayWallet_def truthy_def split: option.splits)
  from assms none main_same no_line show ?thesis
    by (simp add: same [of getOtpCode extra s])
qed

theorem createWallet_never_sets_ecosystem_witness:
  "(\<exists>c' evs. createWalletWithEmail demo_client
               (fixed_server (Fulfilled code_sent) (Fulfilled verified) (Fulfilled deployed))
               ''2026-01-01T00:00:00.000Z'' ''user@example.com'' getOtpFromUser
               [Some ''my-ecosystem'', Some ''my-partner''] [''12'', ''123456'']
             = Some (Inr demo_wallet, c', [], evs))
   \<and> WalletInfo.ecosystemId demo_wallet = None \<and> WalletInfo.ecosystemPartnerId demo_wallet = None
   \<and> Log ''Ecosystem ID: my-ecosystem'' \<notin> set (displayWallet demo_wallet)"
proof -
  let ?srv = "fixed_server (Fulfilled code_sent) (Fulfilled verified) (Fulfilled deployed)"
  have "\<exists>c' evs. createWalletWithEmail demo_client ?srv ''2026-01-01T00:00:00.000Z'' ''user@example.com''
                   getOtpFromUser [Some ''my-ecosystem'', Some ''my-partner''] [''12'', ''123456'']
                 = Some (Inr demo_wallet, c', [], evs)"
    by (simp add: createWalletWithEmail_def sendLoginCode_def verifyLoginCode_def fixed_server_def
          interceptor_def Let_def code_sent_def verified_def truthy_def getOtpFromUser.simps
          askQuestion_def after_def trim_def is_space_def demo_wallet_def demo_client_def
          new_ThirdwebClient_def demo_config_def)
  then obtain c' evs where
    run: "createWalletWithEmail demo_client ?srv ''2026-01-01T00:00:00.000Z'' ''user@example.com''
            getOtpFromUser [Some ''my-ecosystem'', Some ''my-partner''] [''12'', ''123456'']
          = Some (Inr demo_wallet, c', [], evs)"
    by blast
  from createWallet_never_sets_ecosystem [OF run] run
  have "WalletInfo.ecosystemId demo_wallet = None \<and> WalletInfo.ecosystemPartnerId demo_wallet = None
        \<and> (\<forall>x. Log (''Ecosystem ID: '' @ x) \<notin> set (displayWallet demo_wallet))"
    by simp
  then have "WalletInfo.ecosystemId demo_wallet = None \<and> WalletInfo.ecosystemPartnerId demo_wallet = None
        \<and> Log (''Ecosystem ID: '' @ ''my-ecosystem'') \<notin> set (displayWallet demo_wallet)"
    by blast
  with run show ?thesis
    by auto
qed

section \<open>Properties of the interactive tool\<close>

text \<open>
  With five answers of which the first three are not empty, \<open>getTokenMetadata\<close>
  returns without asking again. A decimals answer that is empty or not a number gives
  18; every other answer gives the number that \<open>parseInt\<close> reads.
\<close>

lemma getTokenMetadata_answers:
  assumes "trim a1 \<noteq> []" and "trim a2 \<noteq> []" and "trim a3 \<noteq> []"
  shows "\<exists>evs. getTokenMetadata (a1 # a2 # a3 # a4 # a5 # rest) =
           Some (\<lparr>name = trim a1,
                  symbol = toUpperCase (trim a2),
                  description = trim a3,
                  decimals = Some (if trim a4 = [] \<or> parseInt (trim a4) = NaN then Num 18
                                   else parseInt (trim a4)),
                  initialSupply = Some (if trim a5 = [] then ''0'' else trim a5)\<rparr>,
                 rest, evs)"
  using assms
  by (simp add: getTokenMetadata.simps [of "a1 # a2 # a3 # a4 # a5 # rest"] askQuestion_def or_str_def Let_def)

text \<open>
  C1, at the decimals answer \<open>25\<close>: the run is not aborted and prints
  \<open>Invalid decimals. Using default value of 18.\<close>, and the \<open>TokenMetadata\<close> it
  returns has \<open>decimals\<close> 25, not 18.
\<close>

theorem getTokenMetadata_keeps_decimals_out_of_range:
  "case getTokenMetadata [''My Token'', ''mtk'', ''A token'', ''25'', []] of
     None \<Rightarrow> False
   | Some (tm, rest, evs) \<Rightarrow>
       tm = \<lparr>name = ''My Token'', symbol = ''MTK'', description = ''A token'',
              decimals = Some (Num 25), initialSupply = Some ''0''\<rparr>
       \<and> rest = []
       \<and> Log ''Invalid decimals. Using default value of 18.'' \<in> set evs"
  by code_simp

lemma written_saveWalletInfo:
  "written (saveWalletInfo fs now_ms w) = [stringify_WalletInfo (safeWalletInfo w)]"
  by (simp add: saveWalletInfo_def Let_def split: option.splits)

lemma written_saveCompleteInfo:
  "written (saveCompleteInfo fs now_ms w ci) =
     [JObj [(''wallet'', stringify_WalletInfo (safeWalletInfo w)),
            (''contract'', stringify_ContractInfo ci)]]"
  by (simp add: saveCompleteInfo_def Let_def split: option.splits)

lemma saved_token_safeWalletInfo:
  "saved_token (stringify_WalletInfo (safeWalletInfo w)) =
     (case truthy (WalletInfo.token w) of None \<Rightarrow> None | Some t \<Rightarrow> Some (take 20 t @ ''...''))"
  by (simp add: saved_token_def stringify_WalletInfo_def stringify_def safeWalletInfo_def
      split: option.splits)

text \<open>
  C7, at the token \<open>abc\<close>: the wallet has a bearer token of three characters, and the
  document that \<open>saveWalletInfo\<close> writes, and the wallet object of the document that
  \<open>saveCompleteInfo\<close> writes, hold \<open>abc...\<close> as \<open>token\<close>: the full token is
  persisted, in front of the marker.
\<close>

theorem short_token_is_saved_whole:
  "WalletInfo.token short_token_wallet = Some ''abc''
   \<and> written (saveWalletInfo fs_ok 1767225600000 short_token_wallet)
       = [JObj [(''address'', JStr ''0x1234567890abcdef''),
                (''email'', JStr ''user@example.com''),
                (''created_at'', JStr ''2026-01-01T00:00:00.000Z''),
                (''chain_id'', JNum (Num 1)),
                (''isNewUser'', JBool True),
                (''token'', JStr ''abc...'')]]
   \<and> written (saveCompleteInfo fs_ok 1767225600000 short_token_wallet demo_contract)
       = [JObj [(''wallet'',
                 JObj [(''address'', JStr ''0x1234567890abcdef''),
                       (''email'', JStr ''user@example.com''),
                       (''created_at'', JStr ''2026-01-01T00:00:00.000Z''),
                       (''chain_id'', JNum (Num 1)),
                       (''isNewUser'', JBool True),
                       (''token'', JStr ''abc...'')]),
                (''contract'',
                 JObj [(''contractAddress'', JStr ''0xc0ffee''),
                       (''transactionId'', JStr ''tx-1''),
                       (''chainId'', JNum (Num 1)),
                       (''deployer'', JStr ''0x1234567890abcdef''),
                       (''tokenName'', JStr ''My Token''),
                       (''tokenSymbol'', JStr ''MTK''),
                       (''tokenDescription'', JStr ''A token''),
                       (''deployed_at'', JStr ''2026-01-01T00:00:00.000Z'')])]]
   \<and> saved_token (stringify_WalletInfo (safeWalletInfo short_token_wallet)) = Some ''abc...''
   \<and> prefix ''abc'' ''abc...''"
  by (simp add: written_saveWalletInfo written_saveCompleteInfo stringify_WalletInfo_def
        stringify_ContractInfo_def stringify_def stringify_num_def safeWalletInfo_def
        saved_token_def short_token_wallet_def demo_contract_def truthy_def)

text \<open>
  What the code does for every wallet: the \<open>token\<close> written is the first 20
  characters of the bearer token followed by \<open>...\<close>, and there is none when the
  wallet has no token or an empty one.
\<close>

lemma saved_token_first_20:
  "map saved_token (written (saveWalletInfo fs now_ms w))
     = [case truthy (WalletInfo.token w) of None \<Rightarrow> None | Some t \<Rightarrow> Some (take 20 t @ ''...'')]"
  by (simp add: written_saveWalletInfo saved_token_safeWalletInfo)

section \<open>Properties of the transaction checker\<close>

lemma polls_append: "polls (xs @ ys) = polls xs + polls ys"
  by (induction xs rule: polls.induct) auto

lemma polls_and_waits_append:
  "polls_and_waits (xs @ ys) = polls_and_waits xs @ polls_and_waits ys"
  by (induction xs rule: polls_and_waits.induct) auto

text \<open>One iteration: it leaves the loop exactly on a terminal outcome, and makes one request.\<close>

lemma watch_iteration_stop:
  "fst (watch_iteration key rs txId dbg a) = terminal (rs 0)"
  by (auto simp: watch_iteration_def checkTransactionStatus_def interceptor_def txData_of_def
        terminal_def reported_status_def no_longer_pending_def truthy_def Let_def
      split: axios_outcome.splits tx_response.splits option.splits sum.splits prod.splits)

lemma watch_iteration_attempts:
  "fst (snd (watch_iteration key rs txId dbg a)) = (if terminal (rs 0) then a else a + 1)"
  by (auto simp: watch_iteration_def checkTransactionStatus_def interceptor_def txData_of_def
        terminal_def reported_status_def no_longer_pending_def truthy_def Let_def
      split: axios_outcome.splits tx_response.splits option.splits sum.splits prod.splits)

lemma watch_iteration_polls:
  "polls (snd (snd (watch_iteration key rs txId dbg a))) = 1"
  by (auto simp: watch_iteration_def checkTransactionStatus_def Let_def polls_append
      split: sum.splits prod.splits option.splits)

lemma watch_iteration_trace:
  "polls_and_waits (snd (snd (watch_iteration key rs txId dbg a)))
       = [Get (''/v1/transactions/'' @ txId) (checker_headers key)]
     \<and> (terminal (rs 0) \<or> maxAttempts \<le> a + 1)
   \<or> polls_and_waits (snd (snd (watch_iteration key rs txId dbg a)))
       = [Get (''/v1/transactions/'' @ txId) (checker_headers key), Sleep 5000]
     \<and> \<not> terminal (rs 0)"
  by (auto simp: watch_iteration_def checkTransactionStatus_def interceptor_def txData_of_def
        terminal_def reported_status_def no_longer_pending_def truthy_def Let_def polls_and_waits_append
      split: axios_outcome.splits tx_response.splits option.splits sum.splits prod.splits)

text \<open>The three ways the loop goes on from a value of \<open>attempts\<close>.\<close>

lemma watch_done: "\<not> a < maxAttempts \<Longrightarrow> watch key rs txId dbg a = (a, [])"
  by (simp add: watch.simps)

lemma watch_stop:
  "a < maxAttempts \<Longrightarrow> terminal (rs 0) \<Longrightarrow>
     watch key rs txId dbg a = (a, snd (snd (watch_iteration key rs txId dbg a)))"
  using watch_iteration_stop [of key rs txId dbg a] watch_iteration_attempts [of key rs txId dbg a]
  by (auto simp: watch.simps [of key rs txId dbg a] split: prod.splits)

lemma watch_continue:
  "a < maxAttempts \<Longrightarrow> \<not> terminal (rs 0) \<Longrightarrow>
     watch key rs txId dbg a =
       (fst (watch key (\<lambda>i. rs (Suc i)) txId dbg (a + 1)),
        snd (snd (watch_iteration key rs txId dbg a)) @ snd (watch key (\<lambda>i. rs (Suc i)) txId dbg (a + 1)))"
  using watch_iteration_stop [of key rs txId dbg a] watch_iteration_attempts [of key rs txId dbg a]
  by (auto simp: watch.simps [of key rs txId dbg a] split: prod.splits)

lemma watch_until_terminal:
  "a + n < maxAttempts \<Longrightarrow> terminal (rs n) \<Longrightarrow> (\<forall>i<n. \<not> terminal (rs i)) \<Longrightarrow>
     polls (snd (watch key rs txId dbg a)) = Suc n \<and> fst (watch key rs txId dbg a) = a + n"
proof (induction n arbitrary: rs a)
  case 0
  then show ?case
    by (simp add: watch_stop watch_iteration_polls)
next
  case (Suc n)
  from Suc.prems have first: "\<not> terminal (rs 0)" and lt: "a < maxAttempts"
    by auto
  from Suc.prems have "Suc a + n < maxAttempts" "terminal (rs (Suc n))" "\<forall>i<n. \<not> terminal (rs (Suc i))"
    by auto
  from Suc.IH [of "Suc a" "\<lambda>i. rs (Suc i)", OF this]
  show ?case
    by (simp add: watch_continue [where rs = rs, OF lt first] polls_append watch_iteration_polls)
qed

lemma watch_until_budget:
  "(\<forall>i < maxAttempts - a. \<not> terminal (rs i)) \<Longrightarrow>
     polls (snd (watch key rs txId dbg a)) = maxAttempts - a
     \<and> fst (watch key rs txId dbg a) = max a maxAttempts"
proof (induction k \<equiv> "maxAttempts - a" arbitrary: rs a)
  case 0
  then show ?case
    by (simp add: watch_done)
next
  case (Suc k)
  from Suc.hyps(2) have lt: "a < maxAttempts" and k: "k = maxAttempts - Suc a"
    by auto
  from Suc.prems lt have first: "\<not> terminal (rs 0)"
    by auto
  from Suc.prems have "\<forall>i < maxAttempts - Suc a. \<not> terminal (rs (Suc i))"
    by auto
  from Suc.hyps(1) [OF k this] lt
  show ?case
    by (simp add: watch_continue [where rs = rs, OF lt first] polls_append watch_iteration_polls max_def)
qed

lemma watch_alternating:
  "alternating (polls_and_waits (snd (watch key rs txId dbg a)))"
proof (induction k \<equiv> "maxAttempts - a" arbitrary: rs a)
  case 0
  then show ?case
    by (simp add: watch_done)
next
  case (Suc k)
  from Suc.hyps(2) have lt: "a < maxAttempts" and k: "k = maxAttempts - Suc a"
    by auto
  show ?case
  proof (cases "terminal (rs 0)")
    case True
    with watch_iteration_trace [of key rs txId dbg a] show ?thesis
      by (auto simp: watch_stop [where rs = rs, OF lt True])
  next
    case False
    from Suc.hyps(1) [OF k]
    have rest: "alternating (polls_and_waits (snd (watch key (\<lambda>i. rs (Suc i)) txId dbg (Suc a))))" .
    from watch_iteration_trace [of key rs txId dbg a] rest False show ?thesis
      by (auto simp: watch_continue [where rs = rs, OF lt False] polls_and_waits_append watch_done)
  qed
qed

text \<open>
  C5, as stated, fails: the first answer has no status, which is other than
  \<open>"pending"\<close>, so that the claim gives \<open>min(1, 120) = 1\<close> polling iteration; the
  loop goes on, and with every later answer pending it polls 120 times.
\<close>

theorem watch_polls_on_when_status_is_missing:
  "reported_status (status_missing_then_pending 0) \<noteq> Some ''pending''
   \<and> polls (snd (watch ''secret-key'' status_missing_then_pending ''tx-1'' False 0)) = 120
   \<and> polls (snd (watch ''secret-key'' status_missing_then_pending ''tx-1'' False 0)) \<noteq> min 1 120"
proof -
  have "\<forall>i < maxAttempts - 0. \<not> terminal (status_missing_then_pending i)"
    by (simp add: status_missing_then_pending_def tx_with_status_def terminal_def reported_status_def)
  from watch_until_budget [OF this, of "''secret-key''" "''tx-1''" False]
  have count: "polls (snd (watch ''secret-key'' status_missing_then_pending ''tx-1'' False 0)) = 120"
    by (simp add: maxAttempts_def)
  have "reported_status (status_missing_then_pending 0) \<noteq> Some ''pending''"
    by (simp add: status_missing_then_pending_def tx_with_status_def reported_status_def)
  with count show ?thesis
    by simp
qed

text \<open>
  C5, amended: let N be the first polling iteration whose answer reports a status that is
  not empty and other than \<open>"pending"\<close>; an iteration whose request fails, or whose
  answer has no status, counts as an iteration and does not end the loop. Then the loop
  of watch mode makes exactly \<open>min(N, 120)\<close> polling requests: it ends at iteration N
  when N is at most 120, leaving \<open>attempts\<close> below 120, and otherwise after 120
  iterations with \<open>attempts\<close> at 120. Between two consecutive polling requests there
  is exactly one timer wait, of 5000 milliseconds.
\<close>

theorem watch_polls_until_terminal_or_budget:
  "(\<forall>n. n < 120 \<and> terminal (rs n) \<and> (\<forall>i<n. \<not> terminal (rs i))
        \<longrightarrow> polls (snd (watch key rs txId dbg 0)) = n + 1 \<and> fst (watch key rs txId dbg 0) = n)
   \<and> ((\<forall>i<120. \<not> terminal (rs i))
        \<longrightarrow> polls (snd (watch key rs txId dbg 0)) = 120 \<and> fst (watch key rs txId dbg 0) = 120)
   \<and> alternating (polls_and_waits (snd (watch key rs txId dbg 0)))"
proof (intro conjI allI impI)
  fix n
  assume "n < 120 \<and> terminal (rs n) \<and> (\<forall>i<n. \<not> terminal (rs i))"
  then have "0 + n < maxAttempts" "terminal (rs n)" "\<forall>i<n. \<not> terminal (rs i)"
    by (simp_all add: maxAttempts_def)
  from watch_until_terminal [OF this, of key txId dbg]
  show "polls (snd (watch key rs txId dbg 0)) = n + 1" and "fst (watch key rs txId dbg 0) = n"
    by simp_all
next
  assume "\<forall>i<120. \<not> terminal (rs i)"
  then have "\<forall>i < maxAttempts - 0. \<not> terminal (rs i)"
    by (simp add: maxAttempts_def)
  from watch_until_budget [OF this, of key txId dbg]
  show "polls (snd (watch key rs txId dbg 0)) = 120" and "fst (watch key rs txId dbg 0) = 120"
    by (simp_all add: maxAttempts_def)
next
  show "alternating (polls_and_waits (snd (watch key rs txId dbg 0)))"
    by (rule watch_alternating)
qed

theorem watch_polls_until_terminal_or_budget_witness:
  "terminal (completed_at_third 2)
   \<and> \<not> terminal (completed_at_third 0)
   \<and> \<not> terminal (completed_at_third 1)
   \<and> polls (snd (watch ''secret-key'' completed_at_third ''tx-1'' False 0)) = 3
   \<and> fst (watch ''secret-key'' completed_at_third ''tx-1'' False 0) = 2
   \<and> alternating (polls_and_waits (snd (watch ''secret-key'' completed_at_third ''tx-1'' False 0)))"
proof -
  have pre: "(2::nat) < 120 \<and> terminal (completed_at_third 2) \<and> (\<forall>i<2. \<not> terminal (completed_at_third i))"
    by (simp add: completed_at_third_def tx_with_status_def terminal_def reported_status_def)
  from watch_polls_until_terminal_or_budget [of completed_at_third "''secret-key''" "''tx-1''" False]
  have upto: "\<forall>n. n < 120 \<and> terminal (completed_at_third n) \<and> (\<forall>i<n. \<not> terminal (completed_at_third i))
          \<longrightarrow> polls (snd (watch ''secret-key'' completed_at_third ''tx-1'' False 0)) = n + 1
              \<and> fst (watch ''secret-key'' completed_at_third ''tx-1'' False 0) = n"
    and alt: "alternating (polls_and_waits (snd (watch ''secret-key'' completed_at_third ''tx-1'' False 0)))"
    by blast+
  from upto [rule_format, of 2, OF pre] pre alt show ?thesis
    by (simp add: completed_at_third_def tx_with_status_def terminal_def reported_status_def)
qed

text \<open>
  C6: let the status request be answered with 404. In the loop of watch mode, at any
  value of \<open>attempts\<close> below 120, the iteration prints the hint that the transaction
  was not found, adds one to \<open>attempts\<close> and does not leave the loop, which goes on
  with the next outcome; and \<open>main\<close> in watch mode returns without
  \<open>process.exit\<close>. In single-check mode \<open>main\<close> makes that one request, prints
  the error and the tip, and exits with status 1.
\<close>

theorem not_found_retried_in_watch_mode_terminal_in_single_check:
  assumes "rs 0 = Rejected (Some r) msg" and "response_status r = 404"
  shows "(a < maxAttempts \<longrightarrow>
            (\<exists>evs. watch_iteration key rs txId dbg a = (False, a + 1, evs)
                \<and> Log ''Transaction not found. It may not exist or may not be indexed yet.'' \<in> set evs
                \<and> watch key rs txId dbg a =
                    (fst (watch key (\<lambda>i. rs (Suc i)) txId dbg (a + 1)),
                     evs @ snd (watch key (\<lambda>i. rs (Suc i)) txId dbg (a + 1)))))
         \<and> (txId \<noteq> [] \<and> ''--help'' \<notin> set (txId # flags) \<and> ''-h'' \<notin> set (txId # flags)
              \<and> (''--watch'' \<in> set (txId # flags) \<or> ''-w'' \<in> set (txId # flags))
              \<and> truthy apiKeyEnv = Some key
            \<longrightarrow> snd (main (txId # flags) apiKeyEnv rs) = None)
         \<and> (txId \<noteq> [] \<and> ''--help'' \<notin> set (txId # flags) \<and> ''-h'' \<notin> set (txId # flags)
              \<and> ''--watch'' \<notin> set (txId # flags) \<and> ''-w'' \<notin> set (txId # flags)
              \<and> truthy apiKeyEnv = Some key
            \<longrightarrow> (\<exists>evs. main (txId # flags) apiKeyEnv rs = (evs, Some 1)
                   \<and> polls evs = 1
                   \<and> ErrorLog ''Error checking transaction:''
                        (Some (ApiErr \<lparr>ApiError.error = or_str (data_error r) ''API Error'',
                                        message = Some (or_str (data_message r) msg),
                                        status_code = Some 404\<rparr>)) \<in> set evs
                   \<and> Log ''Tip: Make sure the transaction ID is correct and the transaction exists.'' \<in> set evs))"
proof (intro conjI impI)
  assume lt: "a < maxAttempts"
  from assms have "\<not> terminal (rs 0)"
    by (simp add: terminal_def reported_status_def)
  from watch_continue [where rs = rs, OF lt this, of key txId dbg]
  have loop: "watch key rs txId dbg a =
                (fst (watch key (\<lambda>i. rs (Suc i)) txId dbg (a + 1)),
                 snd (snd (watch_iteration key rs txId dbg a)) @ snd (watch key (\<lambda>i. rs (Suc i)) txId dbg (a + 1)))" .
  from assms have "\<exists>evs. watch_iteration key rs txId dbg a = (False, a + 1, evs)
                \<and> Log ''Transaction not found. It may not exist or may not be indexed yet.'' \<in> set evs"
    by (simp add: watch_iteration_def checkTransactionStatus_def interceptor_def has_status_code_def Let_def)
  with loop show "\<exists>evs. watch_iteration key rs txId dbg a = (False, a + 1, evs)
                \<and> Log ''Transaction not found. It may not exist or may not be indexed yet.'' \<in> set evs
                \<and> watch key rs txId dbg a =
                    (fst (watch key (\<lambda>i. rs (Suc i)) txId dbg (a + 1)),
                     evs @ snd (watch key (\<lambda>i. rs (Suc i)) txId dbg (a + 1)))"
    by auto
next
  assume "txId \<noteq> [] \<and> ''--help'' \<notin> set (txId # flags) \<and> ''-h'' \<notin> set (txId # flags)
              \<and> (''--watch'' \<in> set (txId # flags) \<or> ''-w'' \<in> set (txId # flags))
              \<and> truthy apiKeyEnv = Some key"
  then show "snd (main (txId # flags) apiKeyEnv rs) = None"
    by (auto simp: main_def truthy_def Let_def split: prod.splits)
next
  assume "txId \<noteq> [] \<and> ''--help'' \<notin> set (txId # flags) \<and> ''-h'' \<notin> set (txId # flags)
              \<and> ''--watch'' \<notin> set (txId # flags) \<and> ''-w'' \<notin> set (txId # flags)
              \<and> truthy apiKeyEnv = Some key"
  with assms show "\<exists>evs. main (txId # flags) apiKeyEnv rs = (evs, Some 1)
                   \<and> polls evs = 1
                   \<and> ErrorLog ''Error checking transaction:''
                        (Some (ApiErr \<lparr>ApiError.error = or_str (data_error r) ''API Error'',
                                        message = Some (or_str (data_message r) msg),
                                        status_code = Some 404\<rparr>)) \<in> set evs
                   \<and> Log ''Tip: Make sure the transaction ID is correct and the transaction exists.'' \<in> set evs"
    by (simp add: main_def truthy_def Let_def checkTransactionStatus_def interceptor_def main_catch_def
          has_status_code_def polls_append)
qed

theorem not_found_retried_in_watch_mode_terminal_in_single_check_witness:
  "not_found_then_pending 0 = tx_not_found
   \<and> fst (watch_iteration ''secret-key'' not_found_then_pending ''tx-1'' False 0) = False
   \<and> fst (snd (watch_iteration ''secret-key'' not_found_then_pending ''tx-1'' False 0)) = 1
   \<and> snd (main [''tx-1'', ''--watch''] (Some ''secret-key'') not_found_then_pending) = None
   \<and> snd (main [''tx-1''] (Some ''secret-key'') not_found_then_pending) = Some 1
   \<and> Log ''Tip: Make sure the transaction ID is correct and the transaction exists.''
       \<in> set (fst (main [''tx-1''] (Some ''secret-key'') not_found_then_pending))"
proof -
  have first: "not_found_then_pending 0 =
      Rejected (Some \<lparr>response_status = 404, data_error = Some ''Not Found'', data_message = None\<rparr>)
        ''Request failed with status code 404''"
    and code: "response_status \<lparr>response_status = 404, data_error = Some ''Not Found'', data_message = None\<rparr> = 404"
    by (simp_all add: not_found_then_pending_def tx_not_found_def)
  note inst = not_found_retried_in_watch_mode_terminal_in_single_check
                [where rs = not_found_then_pending, OF first code]
  from inst [where a = 0 and key = "''secret-key''" and txId = "''tx-1''" and dbg = False
               and flags = "[''--watch'']" and apiKeyEnv = "Some ''secret-key''"]
  have "fst (watch_iteration ''secret-key'' not_found_then_pending ''tx-1'' False 0) = False
        \<and> fst (snd (watch_iteration ''secret-key'' not_found_then_pending ''tx-1'' False 0)) = 1
        \<and> snd (main [''tx-1'', ''--watch''] (Some ''secret-key'') not_found_then_pending) = None"
    by (auto simp: maxAttempts_def truthy_def)
  moreover
  from inst [where a = 0 and key = "''secret-key''" and txId = "''tx-1''" and dbg = False
               and flags = "[]" and apiKeyEnv = "Some ''secret-key''"]
  have "snd (main [''tx-1''] (Some ''secret-key'') not_found_then_pending) = Some 1
        \<and> Log ''Tip: Make sure the transaction ID is correct and the transaction exists.''
            \<in> set (fst (main [''tx-1''] (Some ''secret-key'') not_found_then_pending))"
    by (auto simp: truthy_def)
  ultimately show ?thesis
    by (simp add: not_found_then_pending_def)
qed

end
